theory Spec2Isabelle
  imports Main
begin

section \<open>Data model\<close>

text \<open>
  The orchestrator \<open>TradingAgentsGraph\<close> of \<open>tradingagents/graph/trading_graph.py\<close>.
  Python exceptions are values of the type \<open>error\<close>; a method that mutates the object
  returns the object after the call next to its result, also when it raises, since the
  assignments made before the exception stay.
\<close>

datatype config_problem = Missing_api_key string | Unsupported_provider string

datatype error =
    ValueError config_problem
  | IndexError
  | OSError
  | TypeError
  | NoPriorRunError
  | External string
  \<comment> \<open>\<open>ValueError\<close> is raised by the constructor and \<open>IndexError\<close> by \<open>trace[-1]\<close>
      on an empty trace. The others are raised by what the orchestrator calls:
      \<open>OSError\<close> by the creation of a directory or the opening of a file,
      \<open>TypeError\<close> by Python code that subscripts \<open>None\<close>, \<open>External\<close> by a
      collaborator (graph execution, language model client). \<open>NoPriorRunError\<close> is
      the name the specification uses; no statement of the source raises it.\<close>

type_synonym message = "string \<times> string"

record invest_debate_state =
  bull_history :: string
  bear_history :: string
  inv_history :: string
  current_response :: string
  inv_judge_decision :: string

record risk_debate_state =
  risky_history :: string
  safe_history :: string
  neutral_history :: string
  risk_history :: string
  risk_judge_decision :: string

text \<open>
  \<open>AgentState\<close>: the keys of the state dictionary that the orchestrator reads. The two
  debate records carry the keys \<open>history\<close> and \<open>judge_decision\<close> of the source under
  the names \<open>inv_history\<close>, \<open>risk_history\<close>, \<open>inv_judge_decision\<close> and
  \<open>risk_judge_decision\<close>, since one theory cannot hold two fields of one name.
\<close>

record agent_state =
  company_of_interest :: string
  trade_date :: string
  market_report :: string
  sentiment_report :: string
  news_report :: string
  fundamentals_report :: string
  investment_debate_state :: invest_debate_state
  trader_investment_plan :: string
  risk_debate_state :: risk_debate_state
  investment_plan :: string
  final_trade_decision :: string
  messages :: "message list"

text \<open>One value of \<open>log_states_dict\<close>: the dictionary literal built by \<open>_log_state\<close>.\<close>

record log_entry =
  log_company_of_interest :: string
  log_trade_date :: string
  log_market_report :: string
  log_sentiment_report :: string
  log_news_report :: string
  log_fundamentals_report :: string
  log_investment_debate_state :: invest_debate_state
  log_trader_investment_decision :: string
  log_risk_debate_state :: risk_debate_state
  log_investment_plan :: string
  log_final_trade_decision :: string

datatype canonical_action = BUY | SELL | HOLD | UNKNOWN

datatype role = Bull | Bear | Trader | InvestJudge | RiskManager

datatype provider =
  OpenAI | SiliconFlow | OpenRouter | Ollama | Anthropic | Google | DashScope
  | DeepSeek | CustomOpenAI | Qianfan

text \<open>The configuration keys the constructor itself branches on.\<close>

record config =
  llm_provider :: string
  memory_enabled :: "bool option"

text \<open>
  Modelled from the spec: the Memory Store (\<open>FinancialSituationMemory\<close>, whose module
  \<open>tradingagents/agents/utils/memory.py\<close> is not among the sources): an append-only
  sequence of entries (situation key, recommendation).
\<close>

record memory =
  mem_name :: string
  situations :: "(string \<times> string) list"

definition add_situations :: "memory \<Rightarrow> (string \<times> string) list \<Rightarrow> memory" where
  "add_situations m new = m\<lparr>situations := situations m @ new\<rparr>"

text \<open>
  What lives outside the orchestrator object: the memory objects, addressed by reference
  (the orchestrator's fields and the graph hold references to them), and the files
  written by \<open>_log_state\<close>, a file holding the dictionary that \<open>json.dump\<close> wrote.
  A file is named by the canonical form of a path: two paths that differ as strings may
  name one file.
\<close>

record world =
  memories :: "nat \<Rightarrow> memory"
  next_ref :: nat
  files :: "string \<rightharpoonup> (string \<rightharpoonup> log_entry)"

text \<open>The fields of a \<open>TradingAgentsGraph\<close> object that its methods read and assign.\<close>

record trading_agents_graph =
  debug :: bool
  bull_memory :: "nat option"
  bear_memory :: "nat option"
  trader_memory :: "nat option"
  invest_judge_memory :: "nat option"
  risk_manager_memory :: "nat option"
  curr_state :: "agent_state option"
  ticker :: "string option"
  log_states_dict :: "string \<rightharpoonup> log_entry"

text \<open>
  The collaborators the orchestrator calls and whose code is elsewhere, as parameters:
  \<^item> \<open>default_config\<close>: the constant \<open>DEFAULT_CONFIG\<close>;
  \<^item> \<open>llm_clients\<close>: the construction of the two language model clients of a branch of
    the constructor, with the API key handed over; \<open>Some e\<close> when it raises;
  \<^item> \<open>create_initial_state\<close>: \<open>Propagator.create_initial_state\<close>;
  \<^item> \<open>graph_invoke\<close>, \<open>graph_stream\<close>: the two ways of executing the compiled graph;
    a stream is the chunks it yields and the exception that ends it, if any;
  \<^item> \<open>reflect_on_component\<close>: the critique of the Reflection Engine for one role, from
    the state that the orchestrator passes (\<open>None\<close> when no run has completed) and the
    realised outcome: the memory entry to append, or the exception raised on the way;
  \<^item> \<open>reflect_without_store\<close>: how a method of the Reflection Engine ends when, the
    critique made, it has been passed \<open>None\<close> for the store (memory disabled);
  \<^item> \<open>signal_processor\<close>: \<open>SignalProcessor.process_signal\<close>, the Signal Extractor,
    which calls a language model and may raise;
  \<^item> \<open>file_of\<close>, \<open>os_error\<close>: the operating system: the file that a path names,
    and the exception with which the creation of the directory of a path or the opening
    of the path for writing fails, if it does.
\<close>

record components =
  default_config :: config
  llm_clients :: "provider \<Rightarrow> string option \<Rightarrow> error option"
  create_initial_state :: "string \<Rightarrow> string \<Rightarrow> error + agent_state"
  graph_invoke :: "agent_state \<Rightarrow> error + agent_state"
  graph_stream :: "agent_state \<Rightarrow> agent_state list \<times> error option"
  reflect_on_component ::
    "role \<Rightarrow> agent_state option \<Rightarrow> int \<Rightarrow> error + (string \<times> string)"
  reflect_without_store :: "role \<Rightarrow> error + unit"
  signal_processor :: "string \<Rightarrow> string \<Rightarrow> error + canonical_action"
  file_of :: "string \<Rightarrow> string"
  os_error :: "string \<Rightarrow> error option"


section \<open>Strings\<close>

text \<open>
  Strings are UTF-8 byte strings. \<open>lower\<close> is \<open>str.lower\<close> on the ASCII letters and on
  the Kelvin sign (U+212A, bytes E2 84 AA), the one code point outside ASCII whose
  lower case is a single ASCII letter; the other code points stay as they are, which no
  comparison with an ASCII name can tell from their lower case.
\<close>

definition lower_char :: "char \<Rightarrow> char" where
  "lower_char c =
     (case map_of (zip ''ABCDEFGHIJKLMNOPQRSTUVWXYZ'' ''abcdefghijklmnopqrstuvwxyz'') c of
        None \<Rightarrow> c
      | Some l \<Rightarrow> l)"

fun lower :: "string \<Rightarrow> string" where
  "lower (c1 # c2 # c3 # cs) =
     (if c1 = CHR 0xE2 \<and> c2 = CHR 0x84 \<and> c3 = CHR 0xAA then CHR ''k'' # lower cs
      else lower_char c1 # lower (c2 # c3 # cs))"
| "lower (c # cs) = lower_char c # lower cs"
| "lower [] = []"

text \<open>\<open>sub in s\<close>.\<close>

fun contains :: "string \<Rightarrow> string \<Rightarrow> bool" where
  "contains sub [] = (sub = [])"
| "contains sub (c # cs) = (take (length sub) (c # cs) = sub \<or> contains sub cs)"

text \<open>
  The four CJK characters that the DashScope branch looks for in the name as given
  (U+963F, U+91CC, U+767E, U+70BC), in UTF-8.
\<close>

definition ali_bailian :: string where
  "ali_bailian =
     [CHR 0xE9, CHR 0x98, CHR 0xBF, CHR 0xE9, CHR 0x87, CHR 0x8C,
      CHR 0xE7, CHR 0x99, CHR 0xBE, CHR 0xE7, CHR 0x82, CHR 0xBC]"

text \<open>Truth value of the result of \<open>os.getenv\<close>, and Python's \<open>a or b\<close> on two of them.\<close>

definition truthy :: "string option \<Rightarrow> bool" where
  "truthy k = (case k of None \<Rightarrow> False | Some s \<Rightarrow> s \<noteq> [])"

definition py_or :: "string option \<Rightarrow> string option \<Rightarrow> string option" where
  "py_or a b = (if truthy a then a else b)"


section \<open>The constructor\<close>

text \<open>
  The chain of \<open>if\<close>/\<open>elif\<close> that selects the language model clients, in the source's
  order and with the source's tests: some compare the lower-cased name, some the name as
  given. \<open>None\<close> is normal completion. The imports of the repository's own adapter
  modules inside the branches succeed; what a branch does after its test of the API key
  (the evaluation of the constructors' arguments, the two constructor calls) is the
  parameter \<open>llm_clients\<close>.
\<close>

definition init_llms :: "components \<Rightarrow> (string \<rightharpoonup> string) \<Rightarrow> config \<Rightarrow> error option" where
  "init_llms D getenv cfg =
     (let p = llm_provider cfg in
      if lower p = ''openai'' then llm_clients D OpenAI None
      else if p = ''siliconflow'' then
        (let siliconflow_api_key = getenv ''SILICONFLOW_API_KEY'' in
         if \<not> truthy siliconflow_api_key
         then Some (ValueError (Missing_api_key ''SILICONFLOW_API_KEY''))
         else llm_clients D SiliconFlow siliconflow_api_key)
      else if p = ''openrouter'' then
        (let openrouter_api_key =
               py_or (getenv ''OPENROUTER_API_KEY'') (getenv ''OPENAI_API_KEY'') in
         if \<not> truthy openrouter_api_key
         then Some (ValueError (Missing_api_key ''OPENROUTER_API_KEY''))
         else llm_clients D OpenRouter openrouter_api_key)
      else if p = ''ollama'' then llm_clients D Ollama None
      else if lower p = ''anthropic'' then llm_clients D Anthropic None
      else if lower p = ''google'' then
        (let google_api_key = getenv ''GOOGLE_API_KEY'' in
         if \<not> truthy google_api_key
         then Some (ValueError (Missing_api_key ''GOOGLE_API_KEY''))
         else llm_clients D Google google_api_key)
      else if lower p = ''dashscope'' \<or> lower p = ''alibaba''
              \<or> contains ''dashscope'' (lower p) \<or> contains ali_bailian p
        then llm_clients D DashScope None
      else if lower p = ''deepseek'' \<or> contains ''deepseek'' (lower p) then
        (let deepseek_api_key = getenv ''DEEPSEEK_API_KEY'' in
         if \<not> truthy deepseek_api_key
         then Some (ValueError (Missing_api_key ''DEEPSEEK_API_KEY''))
         else llm_clients D DeepSeek deepseek_api_key)
      else if lower p = ''custom_openai'' then
        (let custom_api_key = getenv ''CUSTOM_OPENAI_API_KEY'' in
         if \<not> truthy custom_api_key
         then Some (ValueError (Missing_api_key ''CUSTOM_OPENAI_API_KEY''))
         else llm_clients D CustomOpenAI None)
      else if lower p = ''qianfan'' then llm_clients D Qianfan None
      else Some (ValueError (Unsupported_provider p)))"

text \<open>\<open>FinancialSituationMemory(name, config)\<close>: a new object, empty, at a new reference.\<close>

definition new_memory :: "string \<Rightarrow> world \<Rightarrow> nat \<times> world" where
  "new_memory name w =
     (next_ref w,
      w\<lparr>memories := (memories w)(next_ref w := \<lparr>mem_name = name, situations = []\<rparr>),
        next_ref := Suc (next_ref w)\<rparr>)"

text \<open>
  \<open>__init__(selected_analysts, debug, config)\<close>. The analysts selected only reach the
  graph builder, whose result is the parameter \<open>graph_invoke\<close>/\<open>graph_stream\<close>.
  \<open>set_config\<close> and the creation of the cache directory, which precede the chain, and
  the construction of the toolkit, the tool nodes, the graph builder, the propagator, the
  reflector and the signal processor, which follow it, assign nothing that a method
  reads as a value and are left out.
\<close>

definition TradingAgentsGraph_init ::
  "components \<Rightarrow> (string \<rightharpoonup> string) \<Rightarrow> bool \<Rightarrow> config option \<Rightarrow> world
     \<Rightarrow> error + (trading_agents_graph \<times> world)" where
  "TradingAgentsGraph_init D getenv dbg cfg_arg w =
     (let cfg = (case cfg_arg of None \<Rightarrow> default_config D | Some c \<Rightarrow> c) in
      case init_llms D getenv cfg of
        Some e \<Rightarrow> Inl e
      | None \<Rightarrow>
          (if (case memory_enabled cfg of None \<Rightarrow> True | Some b \<Rightarrow> b) then
             (let (bull, w1) = new_memory ''bull_memory'' w;
                  (bear, w2) = new_memory ''bear_memory'' w1;
                  (trader, w3) = new_memory ''trader_memory'' w2;
                  (invest_judge, w4) = new_memory ''invest_judge_memory'' w3;
                  (risk_manager, w5) = new_memory ''risk_manager_memory'' w4
              in Inr (\<lparr>debug = dbg,
                        bull_memory = Some bull, bear_memory = Some bear,
                        trader_memory = Some trader,
                        invest_judge_memory = Some invest_judge,
                        risk_manager_memory = Some risk_manager,
                        curr_state = None, ticker = None,
                        log_states_dict = Map.empty\<rparr>, w5))
           else
             Inr (\<lparr>debug = dbg,
                    bull_memory = None, bear_memory = None, trader_memory = None,
                    invest_judge_memory = None, risk_manager_memory = None,
                    curr_state = None, ticker = None,
                    log_states_dict = Map.empty\<rparr>, w)))"


section \<open>Running the graph\<close>

text \<open>
  The loop of the debug branch of \<open>propagate\<close>: a chunk whose \<open>messages\<close> is empty is
  skipped, any other chunk is appended to \<open>trace\<close> (its last message is printed, which
  the model leaves out).
\<close>

fun collect_trace :: "agent_state list \<Rightarrow> agent_state list \<Rightarrow> agent_state list" where
  "collect_trace trace [] = trace"
| "collect_trace trace (chunk # chunks) =
     (if length (messages chunk) = 0 then collect_trace trace chunks
      else collect_trace (trace @ [chunk]) chunks)"

text \<open>
  The \<open>if self.debug: \<dots> else: \<dots>\<close> of \<open>propagate\<close>, which yields \<open>final_state\<close>:
  \<open>trace[-1]\<close> raises \<open>IndexError\<close> on an empty trace.
\<close>

definition execute_graph :: "components \<Rightarrow> bool \<Rightarrow> agent_state \<Rightarrow> error + agent_state" where
  "execute_graph D dbg init_agent_state =
     (if dbg then
        (case graph_stream D init_agent_state of
           (chunks, Some e) \<Rightarrow> Inl e
         | (chunks, None) \<Rightarrow>
             (let trace = collect_trace [] chunks in
              if trace = [] then Inl IndexError else Inr (last trace)))
      else graph_invoke D init_agent_state)"

definition snapshot :: "agent_state \<Rightarrow> log_entry" where
  "snapshot final_state =
     \<lparr>log_company_of_interest = company_of_interest final_state,
      log_trade_date = trade_date final_state,
      log_market_report = market_report final_state,
      log_sentiment_report = sentiment_report final_state,
      log_news_report = news_report final_state,
      log_fundamentals_report = fundamentals_report final_state,
      log_investment_debate_state =
        \<lparr>bull_history = bull_history (investment_debate_state final_state),
         bear_history = bear_history (investment_debate_state final_state),
         inv_history = inv_history (investment_debate_state final_state),
         current_response = current_response (investment_debate_state final_state),
         inv_judge_decision = inv_judge_decision (investment_debate_state final_state)\<rparr>,
      log_trader_investment_decision = trader_investment_plan final_state,
      log_risk_debate_state =
        \<lparr>risky_history = risky_history (risk_debate_state final_state),
         safe_history = safe_history (risk_debate_state final_state),
         neutral_history = neutral_history (risk_debate_state final_state),
         risk_history = risk_history (risk_debate_state final_state),
         risk_judge_decision = risk_judge_decision (risk_debate_state final_state)\<rparr>,
      log_investment_plan = investment_plan final_state,
      log_final_trade_decision = final_trade_decision final_state\<rparr>"

text \<open>The path of the log file: the f-string prints a \<open>ticker\<close> of \<open>None\<close> as \<open>None\<close>.\<close>

definition log_path :: "string option \<Rightarrow> string" where
  "log_path tk =
     ''eval_results/'' @ (case tk of None \<Rightarrow> ''None'' | Some s \<Rightarrow> s)
       @ ''/TradingAgentsStrategy_logs/full_states_log.json''"

text \<open>
  \<open>_log_state(trade_date, final_state)\<close>: sets the entry of \<open>log_states_dict\<close> at the
  date, then creates the directory of the current ticker and writes the whole dictionary
  to the ticker's file. \<open>Path.mkdir\<close> and \<open>open\<close> may raise: the entry is set by
  then, and the files are as they were. The states are complete \<open>AgentState\<close> values
  whose fields are strings, so that reading the keys and \<open>json.dump\<close> complete.
  \<open>Some e\<close> is the exception, \<open>None\<close> normal completion.
\<close>

definition log_state ::
  "components \<Rightarrow> string \<Rightarrow> agent_state \<Rightarrow> trading_agents_graph \<times> world
     \<Rightarrow> error option \<times> trading_agents_graph \<times> world" where
  "log_state D trade_date_arg final_state tw =
     (case tw of (t, w) \<Rightarrow>
        (let t' = t\<lparr>log_states_dict :=
                      (log_states_dict t)(trade_date_arg \<mapsto> snapshot final_state)\<rparr>;
             path = log_path (ticker t')
         in case os_error D path of
              Some e \<Rightarrow> (Some e, t', w)
            | None \<Rightarrow>
                (None, t', w\<lparr>files := (files w)(file_of D path \<mapsto> log_states_dict t')\<rparr>)))"

definition process_signal ::
  "components \<Rightarrow> string \<Rightarrow> string \<Rightarrow> error + canonical_action" where
  "process_signal D full_signal stock_symbol = signal_processor D full_signal stock_symbol"

text \<open>
  \<open>propagate(company_name, trade_date)\<close>. The assignments to \<open>ticker\<close> and to
  \<open>curr_state\<close> stay when a later statement raises.
\<close>

definition propagate ::
  "components \<Rightarrow> string \<Rightarrow> string \<Rightarrow> trading_agents_graph \<times> world
     \<Rightarrow> (error + agent_state \<times> canonical_action) \<times> trading_agents_graph \<times> world" where
  "propagate D company_name trade_date_arg tw =
     (case tw of (t, w) \<Rightarrow>
        (let t1 = t\<lparr>ticker := Some company_name\<rparr> in
         case create_initial_state D company_name trade_date_arg of
           Inl e \<Rightarrow> (Inl e, t1, w)
         | Inr init_agent_state \<Rightarrow>
             (case execute_graph D (debug t1) init_agent_state of
                Inl e \<Rightarrow> (Inl e, t1, w)
              | Inr final_state \<Rightarrow>
                  (let t2 = t1\<lparr>curr_state := Some final_state\<rparr> in
                   case log_state D trade_date_arg final_state (t2, w) of
                     (Some e, t3, w3) \<Rightarrow> (Inl e, t3, w3)
                   | (None, t3, w3) \<Rightarrow>
                       (case process_signal D (final_trade_decision final_state)
                               company_name of
                          Inl e \<Rightarrow> (Inl e, t3, w3)
                        | Inr signal \<Rightarrow> (Inr (final_state, signal), t3, w3))))))"


section \<open>Reflection\<close>

text \<open>
  Modelled from the spec: the five methods \<open>reflect_bull_researcher\<close>, \<dots> of the
  Reflection Engine (\<open>Reflector\<close>, whose module \<open>reflection.py\<close> is not among the
  sources). Each builds a critique input from its role's portion of the state and the
  outcome and produces a lesson by a language model call, then appends the entry to the
  Memory Store of its role. The first part is the parameter \<open>reflect_on_component\<close>,
  which gets the state as the orchestrator passes it and decides what an absent state
  leads to; the append is one step on the store passed. How the method ends when it is
  passed no store is the parameter \<open>reflect_without_store\<close>.
\<close>

definition reflect_role ::
  "components \<Rightarrow> role \<Rightarrow> agent_state option \<Rightarrow> int \<Rightarrow> nat option \<Rightarrow> world
     \<Rightarrow> (error + unit) \<times> world" where
  "reflect_role D r current_state returns_losses mem w =
     (case reflect_on_component D r current_state returns_losses of
        Inl e \<Rightarrow> (Inl e, w)
      | Inr entry \<Rightarrow>
          (case mem of
             None \<Rightarrow> (reflect_without_store D r, w)
           | Some ref \<Rightarrow>
               (Inr (),
                w\<lparr>memories := (memories w)(ref := add_situations (memories w ref) [entry])\<rparr>)))"

definition reflect_bull_researcher where
  "reflect_bull_researcher D = reflect_role D Bull"

definition reflect_bear_researcher where
  "reflect_bear_researcher D = reflect_role D Bear"

definition reflect_trader where
  "reflect_trader D = reflect_role D Trader"

definition reflect_invest_judge where
  "reflect_invest_judge D = reflect_role D InvestJudge"

definition reflect_risk_manager where
  "reflect_risk_manager D = reflect_role D RiskManager"

text \<open>
  \<open>reflect_and_remember(returns_losses)\<close>: the five calls one after the other; an
  exception of a call ends the method there.
\<close>

definition reflect_and_remember ::
  "components \<Rightarrow> trading_agents_graph \<Rightarrow> int \<Rightarrow> world \<Rightarrow> (error + unit) \<times> world" where
  "reflect_and_remember D t returns_losses w =
     (case reflect_bull_researcher D (curr_state t) returns_losses (bull_memory t) w of
        (Inl e, w1) \<Rightarrow> (Inl e, w1)
      | (Inr _, w1) \<Rightarrow>
     (case reflect_bear_researcher D (curr_state t) returns_losses (bear_memory t) w1 of
        (Inl e, w2) \<Rightarrow> (Inl e, w2)
      | (Inr _, w2) \<Rightarrow>
     (case reflect_trader D (curr_state t) returns_losses (trader_memory t) w2 of
        (Inl e, w3) \<Rightarrow> (Inl e, w3)
      | (Inr _, w3) \<Rightarrow>
     (case reflect_invest_judge D (curr_state t) returns_losses (invest_judge_memory t) w3 of
        (Inl e, w4) \<Rightarrow> (Inl e, w4)
      | (Inr _, w4) \<Rightarrow>
          reflect_risk_manager D (curr_state t) returns_losses (risk_manager_memory t) w4))))"



section \<open>Terms in which the claims are stated\<close>

text \<open>
  The branch of the constructor's chain that a provider name takes (\<open>None\<close>: the final
  \<open>else\<close>), and the environment variables that the branch tests before it builds its
  clients: it raises when none of them is set to a non-empty value.
\<close>

definition selected_provider :: "string \<Rightarrow> provider option" where
  "selected_provider p =
     (if lower p = ''openai'' then Some OpenAI
      else if p = ''siliconflow'' then Some SiliconFlow
      else if p = ''openrouter'' then Some OpenRouter
      else if p = ''ollama'' then Some Ollama
      else if lower p = ''anthropic'' then Some Anthropic
      else if lower p = ''google'' then Some Google
      else if lower p = ''dashscope'' \<or> lower p = ''alibaba''
              \<or> contains ''dashscope'' (lower p) \<or> contains ali_bailian p then Some DashScope
      else if lower p = ''deepseek'' \<or> contains ''deepseek'' (lower p) then Some DeepSeek
      else if lower p = ''custom_openai'' then Some CustomOpenAI
      else if lower p = ''qianfan'' then Some Qianfan
      else None)"

fun required_api_keys :: "provider \<Rightarrow> string list" where
  "required_api_keys SiliconFlow = [''SILICONFLOW_API_KEY'']"
| "required_api_keys OpenRouter = [''OPENROUTER_API_KEY'', ''OPENAI_API_KEY'']"
| "required_api_keys Google = [''GOOGLE_API_KEY'']"
| "required_api_keys DeepSeek = [''DEEPSEEK_API_KEY'']"
| "required_api_keys CustomOpenAI = [''CUSTOM_OPENAI_API_KEY'']"
| "required_api_keys _ = []"

definition key_check :: "(string \<rightharpoonup> string) \<Rightarrow> provider \<Rightarrow> bool" where
  "key_check getenv pr =
     (required_api_keys pr = [] \<or> (\<exists>k\<in>set (required_api_keys pr). truthy (getenv k)))"

definition invalid_configuration :: "(string \<rightharpoonup> string) \<Rightarrow> config \<Rightarrow> bool" where
  "invalid_configuration getenv cfg =
     (case selected_provider (llm_provider cfg) of
        None \<Rightarrow> True
      | Some pr \<Rightarrow> required_api_keys pr \<noteq> []
                   \<and> (\<forall>k\<in>set (required_api_keys pr). \<not> truthy (getenv k)))"

text \<open>The execution of the graph raises \<open>e\<close>, in the mode the orchestrator runs it in.\<close>

definition graph_raises :: "components \<Rightarrow> bool \<Rightarrow> agent_state \<Rightarrow> error \<Rightarrow> bool" where
  "graph_raises D dbg init e =
     (if dbg then snd (graph_stream D init) = Some e else graph_invoke D init = Inl e)"

text \<open>
  The state in which the execution of the graph ends, when it ends without an exception:
  what \<open>invoke\<close> returns, and the last state that the stream yields.
\<close>

definition terminal_state :: "components \<Rightarrow> bool \<Rightarrow> agent_state \<Rightarrow> agent_state option" where
  "terminal_state D dbg init =
     (if dbg then
        (case graph_stream D init of
           (chunks, Some e) \<Rightarrow> None
         | (chunks, None) \<Rightarrow> if chunks = [] then None else Some (last chunks))
      else (case graph_invoke D init of Inl e \<Rightarrow> None | Inr s \<Rightarrow> Some s))"

text \<open>
  Identical stage behaviour in the two modes: \<open>invoke\<close> raises what the stream raises,
  and otherwise returns the last state that the stream yields.
\<close>

definition stream_agrees_with_invoke :: "components \<Rightarrow> agent_state \<Rightarrow> bool" where
  "stream_agrees_with_invoke D init =
     (case graph_stream D init of
        (chunks, Some e) \<Rightarrow> graph_invoke D init = Inl e
      | (chunks, None) \<Rightarrow> chunks \<noteq> [] \<and> graph_invoke D init = Inr (last chunks))"

text \<open>The store of a role, and the call that \<open>reflect_and_remember\<close> makes for a role.\<close>

definition memory_of :: "trading_agents_graph \<Rightarrow> role \<Rightarrow> nat option" where
  "memory_of t r =
     (case r of Bull \<Rightarrow> bull_memory t | Bear \<Rightarrow> bear_memory t | Trader \<Rightarrow> trader_memory t
      | InvestJudge \<Rightarrow> invest_judge_memory t | RiskManager \<Rightarrow> risk_manager_memory t)"

definition reflect_call ::
  "components \<Rightarrow> trading_agents_graph \<Rightarrow> int \<Rightarrow> role \<Rightarrow> world \<Rightarrow> (error + unit) \<times> world" where
  "reflect_call D t returns_losses r w =
     (case r of
        Bull \<Rightarrow> reflect_bull_researcher D (curr_state t) returns_losses (bull_memory t) w
      | Bear \<Rightarrow> reflect_bear_researcher D (curr_state t) returns_losses (bear_memory t) w
      | Trader \<Rightarrow> reflect_trader D (curr_state t) returns_losses (trader_memory t) w
      | InvestJudge \<Rightarrow>
          reflect_invest_judge D (curr_state t) returns_losses (invest_judge_memory t) w
      | RiskManager \<Rightarrow>
          reflect_risk_manager D (curr_state t) returns_losses (risk_manager_memory t) w)"

fun reflect_calls ::
  "components \<Rightarrow> trading_agents_graph \<Rightarrow> int \<Rightarrow> role list \<Rightarrow> world
     \<Rightarrow> (error + unit) \<times> world" where
  "reflect_calls D t returns_losses [] w = (Inr (), w)"
| "reflect_calls D t returns_losses (r # rs) w =
     (case reflect_call D t returns_losses r w of
        (Inl e, w1) \<Rightarrow> (Inl e, w1)
      | (Inr _, w1) \<Rightarrow> reflect_calls D t returns_losses rs w1)"

text \<open>The place of a role in the order of the five calls.\<close>

primrec position :: "role \<Rightarrow> nat" where
  "position Bull = 0"
| "position Bear = 1"
| "position Trader = 2"
| "position InvestJudge = 3"
| "position RiskManager = 4"

text \<open>
  The orchestrators that a program can hold: one that the constructor returned, after
  any number of calls of its two public methods, whatever the collaborators did in each.
\<close>

inductive reachable :: "trading_agents_graph \<times> world \<Rightarrow> bool" where
  constructed:
    "TradingAgentsGraph_init D getenv dbg cfg_arg w0 = Inr tw \<Longrightarrow> reachable tw"
| propagated:
    "reachable tw \<Longrightarrow> reachable (snd (propagate D company d tw))"
| reflected:
    "reachable (t, w) \<Longrightarrow> reachable (t, snd (reflect_and_remember D t returns_losses w))"

definition role_owned_stores :: "trading_agents_graph \<Rightarrow> bool" where
  "role_owned_stores t =
     (\<forall>r r'. r \<noteq> r' \<longrightarrow> memory_of t r = None \<or> memory_of t r \<noteq> memory_of t r')"

text \<open>Successive calls of \<open>propagate\<close>, and the entry that a log file holds at a date.\<close>

fun propagate_all ::
  "components \<Rightarrow> (string \<times> string) list \<Rightarrow> trading_agents_graph \<times> world
     \<Rightarrow> trading_agents_graph \<times> world" where
  "propagate_all D [] tw = tw"
| "propagate_all D ((company, d) # runs) tw =
     propagate_all D runs (snd (propagate D company d tw))"

definition persisted_entry ::
  "components \<Rightarrow> world \<Rightarrow> string \<Rightarrow> string \<Rightarrow> log_entry option" where
  "persisted_entry D w company d =
     (case files w (file_of D (log_path (Some company))) of
        None \<Rightarrow> None
      | Some logged \<Rightarrow> logged d)"


section \<open>Concrete collaborators and orchestrators\<close>

definition example_state :: "string \<Rightarrow> string \<Rightarrow> string \<Rightarrow> message list \<Rightarrow> agent_state" where
  "example_state company d decision msgs =
     \<lparr>company_of_interest = company, trade_date = d,
      market_report = [], sentiment_report = [], news_report = [], fundamentals_report = [],
      investment_debate_state =
        \<lparr>bull_history = [], bear_history = [], inv_history = [], current_response = [],
         inv_judge_decision = []\<rparr>,
      trader_investment_plan = [],
      risk_debate_state =
        \<lparr>risky_history = [], safe_history = [], neutral_history = [], risk_history = [],
         risk_judge_decision = []\<rparr>,
      investment_plan = [], final_trade_decision = decision, messages = msgs\<rparr>"

text \<open>
  A stub in the manner of the specification's scenario A: every stage answers
  \<open>HOLD\<close>, the graph yields the initial state and then the terminal one, every
  critique of a state succeeds while the critique of an absent state fails as a
  subscript of \<open>None\<close> does, every path is its own canonical form and writable.
\<close>

definition example_components :: components where
  "example_components =
     \<lparr>default_config = \<lparr>llm_provider = ''openai'', memory_enabled = None\<rparr>,
      llm_clients = (\<lambda>p k. None),
      create_initial_state =
        (\<lambda>company d. Inr (example_state company d [] [(''human'', company)])),
      graph_invoke =
        (\<lambda>s. Inr (s\<lparr>final_trade_decision := ''HOLD'',
                     messages := messages s @ [(''ai'', ''HOLD'')]\<rparr>)),
      graph_stream =
        (\<lambda>s. ([s, s\<lparr>final_trade_decision := ''HOLD'',
                     messages := messages s @ [(''ai'', ''HOLD'')]\<rparr>], None)),
      reflect_on_component =
        (\<lambda>r st ret. case st of None \<Rightarrow> Inl TypeError
                     | Some s \<Rightarrow> Inr (company_of_interest s, final_trade_decision s)),
      reflect_without_store = (\<lambda>r. Inr ()),
      signal_processor =
        (\<lambda>text symbol. Inr (if contains ''HOLD'' text then HOLD else UNKNOWN)),
      file_of = (\<lambda>path. path),
      os_error = (\<lambda>path. None)\<rparr>"

text \<open>A graph whose terminal state has an empty transcript.\<close>

definition quiet_components :: components where
  "quiet_components =
     example_components
       \<lparr>graph_invoke := (\<lambda>s. Inr (s\<lparr>final_trade_decision := ''HOLD'', messages := []\<rparr>)),
        graph_stream :=
          (\<lambda>s. ([s, s\<lparr>final_trade_decision := ''HOLD'', messages := []\<rparr>], None))\<rparr>"

text \<open>A graph none of whose states has a transcript.\<close>

definition mute_components :: components where
  "mute_components =
     example_components
       \<lparr>graph_invoke := (\<lambda>s. Inr (s\<lparr>final_trade_decision := ''HOLD'', messages := []\<rparr>)),
        graph_stream := (\<lambda>s. ([s\<lparr>final_trade_decision := ''HOLD'', messages := []\<rparr>], None))\<rparr>"

text \<open>A graph whose execution raises.\<close>

definition failing_components :: components where
  "failing_components =
     example_components
       \<lparr>graph_invoke := (\<lambda>s. Inl (External ''recursion limit'')),
        graph_stream := (\<lambda>s. ([s], Some (External ''recursion limit'')))\<rparr>"

text \<open>A Reflection Engine whose language model call fails for the trader only.\<close>

definition flaky_components :: components where
  "flaky_components =
     example_components
       \<lparr>reflect_on_component :=
          (\<lambda>r st ret. if r = Trader then Inl (External ''timeout'')
                       else reflect_on_component example_components r st ret)\<rparr>"


text \<open>An operating system that refuses to create the log directory.\<close>

definition readonly_components :: components where
  "readonly_components = example_components\<lparr>os_error := (\<lambda>path. Some OSError)\<rparr>"

definition empty_world :: world where
  "empty_world =
     \<lparr>memories = (\<lambda>r. \<lparr>mem_name = [], situations = []\<rparr>), next_ref = 0, files = Map.empty\<rparr>"

text \<open>What the constructor returns in the empty world, and the world it leaves.\<close>

definition example_graph :: "bool \<Rightarrow> trading_agents_graph" where
  "example_graph dbg =
     \<lparr>debug = dbg, bull_memory = Some 0, bear_memory = Some 1, trader_memory = Some 2,
      invest_judge_memory = Some 3, risk_manager_memory = Some 4,
      curr_state = None, ticker = None, log_states_dict = Map.empty\<rparr>"

definition example_world :: world where
  "example_world =
     \<lparr>memories = (\<lambda>r. \<lparr>mem_name = [], situations = []\<rparr>)
        (0 := \<lparr>mem_name = ''bull_memory'', situations = []\<rparr>,
         1 := \<lparr>mem_name = ''bear_memory'', situations = []\<rparr>,
         2 := \<lparr>mem_name = ''trader_memory'', situations = []\<rparr>,
         3 := \<lparr>mem_name = ''invest_judge_memory'', situations = []\<rparr>,
         4 := \<lparr>mem_name = ''risk_manager_memory'', situations = []\<rparr>),
      next_ref = 5, files = Map.empty\<rparr>"

text \<open>The terminal state of the stub's run, and the orchestrator after one such run.\<close>

definition example_final :: "string \<Rightarrow> string \<Rightarrow> agent_state" where
  "example_final company d =
     example_state company d ''HOLD'' [(''human'', company), (''ai'', ''HOLD'')]"

definition example_after_run :: "trading_agents_graph \<times> world" where
  "example_after_run =
     snd (propagate example_components ''AAPL'' ''2024-05-01''
            (example_graph False, example_world))"


section \<open>Auxiliary facts\<close>

subsection \<open>Running the graph\<close>

lemma collect_trace_filter:
  "collect_trace trace chunks = trace @ filter (\<lambda>chunk. messages chunk \<noteq> []) chunks"
  by (induction chunks arbitrary: trace) simp_all

lemma last_filter_kept:
  "xs \<noteq> [] \<Longrightarrow> P (last xs) \<Longrightarrow> last (filter P xs) = last xs"
  by (induction xs rule: rev_induct) simp_all

lemma execute_graph_debug:
  "graph_stream D init = (chunks, None) \<Longrightarrow>
   execute_graph D True init =
     (if \<forall>chunk\<in>set chunks. messages chunk = [] then Inl IndexError
      else Inr (last (filter (\<lambda>chunk. messages chunk \<noteq> []) chunks)))"
  by (auto simp: execute_graph_def collect_trace_filter filter_empty_conv)

lemma graph_raises_execute:
  "graph_raises D dbg init e \<Longrightarrow> execute_graph D dbg init = Inl e"
  by (auto simp: graph_raises_def execute_graph_def split: prod.splits option.splits)

lemma propagate_init_failure:
  "create_initial_state D company d = Inl e \<Longrightarrow>
   propagate D company d (t, w) = (Inl e, t\<lparr>ticker := Some company\<rparr>, w)"
  by (simp add: propagate_def)

lemma propagate_graph_failure:
  "create_initial_state D company d = Inr init \<Longrightarrow>
   execute_graph D (debug t) init = Inl e \<Longrightarrow>
   propagate D company d (t, w) = (Inl e, t\<lparr>ticker := Some company\<rparr>, w)"
  by (simp add: propagate_def)

lemma propagate_after_execute:
  "create_initial_state D company d = Inr init \<Longrightarrow>
   execute_graph D (debug t) init = Inr fs \<Longrightarrow>
   propagate D company d (t, w) =
     (case os_error D (log_path (Some company)) of
        Some e \<Rightarrow>
          (Inl e,
           t\<lparr>ticker := Some company, curr_state := Some fs,
             log_states_dict := (log_states_dict t)(d \<mapsto> snapshot fs)\<rparr>,
           w)
      | None \<Rightarrow>
          (case signal_processor D (final_trade_decision fs) company of
             Inl e \<Rightarrow> Inl e
           | Inr sg \<Rightarrow> Inr (fs, sg),
           t\<lparr>ticker := Some company, curr_state := Some fs,
             log_states_dict := (log_states_dict t)(d \<mapsto> snapshot fs)\<rparr>,
           w\<lparr>files := (files w)(file_of D (log_path (Some company)) \<mapsto>
                         (log_states_dict t)(d \<mapsto> snapshot fs))\<rparr>))"
  by (simp add: propagate_def log_state_def process_signal_def Let_def
      split: option.splits sum.splits)

lemma propagate_stores_state:
  "create_initial_state D company d = Inr init \<Longrightarrow>
   execute_graph D (debug t) init = Inr fs \<Longrightarrow>
   curr_state (fst (snd (propagate D company d (t, w)))) = Some fs"
  by (simp add: propagate_after_execute split: option.splits)

lemma propagate_result:
  "create_initial_state D company d = Inr init \<Longrightarrow>
   execute_graph D (debug t) init = Inr fs \<Longrightarrow>
   fst (propagate D company d (t, w)) =
     (case os_error D (log_path (Some company)) of
        Some e \<Rightarrow> Inl e
      | None \<Rightarrow>
          (case signal_processor D (final_trade_decision fs) company of
             Inl e \<Rightarrow> Inl e
           | Inr sg \<Rightarrow> Inr (fs, sg)))"
  by (simp add: propagate_after_execute split: option.splits)

lemma propagate_success:
  "create_initial_state D company d = Inr init \<Longrightarrow>
   execute_graph D (debug t) init = Inr fs \<Longrightarrow>
   os_error D (log_path (Some company)) = None \<Longrightarrow>
   signal_processor D (final_trade_decision fs) company = Inr sg \<Longrightarrow>
   propagate D company d (t, w) =
     (Inr (fs, sg),
      t\<lparr>ticker := Some company, curr_state := Some fs,
        log_states_dict := (log_states_dict t)(d \<mapsto> snapshot fs)\<rparr>,
      w\<lparr>files := (files w)(file_of D (log_path (Some company)) \<mapsto>
                    (log_states_dict t)(d \<mapsto> snapshot fs))\<rparr>)"
  by (simp add: propagate_after_execute)

lemma memory_of_propagate:
  "memory_of (fst (snd (propagate D company d (t, w)))) = memory_of t"
proof (cases "create_initial_state D company d")
  case (Inl e)
  then show ?thesis by (simp add: propagate_init_failure memory_of_def fun_eq_iff split: role.splits)
next
  case (Inr init)
  show ?thesis
  proof (cases "execute_graph D (debug t) init")
    case (Inl e)
    with Inr show ?thesis by (simp add: propagate_graph_failure memory_of_def fun_eq_iff split: role.splits)
  next
    case fs: (Inr fs)
    with Inr show ?thesis
      by (simp add: propagate_after_execute memory_of_def fun_eq_iff
          split: option.splits role.splits)
  qed
qed

subsection \<open>The constructor\<close>

lemma init_llms_by_provider:
  "init_llms D getenv cfg =
     (case selected_provider (llm_provider cfg) of
        None \<Rightarrow> Some (ValueError (Unsupported_provider (llm_provider cfg)))
      | Some pr \<Rightarrow>
          if key_check getenv pr
          then llm_clients D pr
                 (if pr = OpenRouter
                  then py_or (getenv ''OPENROUTER_API_KEY'') (getenv ''OPENAI_API_KEY'')
                  else if pr = CustomOpenAI then None
                  else case required_api_keys pr of [] \<Rightarrow> None | k # _ \<Rightarrow> getenv k)
          else Some (ValueError (Missing_api_key (hd (required_api_keys pr)))))"
  unfolding selected_provider_def init_llms_def Let_def
  by (simp add: py_or_def key_check_def)

lemma init_llms_invalid:
  assumes "invalid_configuration getenv cfg"
  shows "\<exists>problem. init_llms D getenv cfg = Some (ValueError problem)"
proof (cases "selected_provider (llm_provider cfg)")
  case None
  then show ?thesis by (simp add: init_llms_by_provider)
next
  case (Some pr)
  with assms have "\<not> key_check getenv pr"
    by (simp add: invalid_configuration_def key_check_def)
  with Some show ?thesis by (simp add: init_llms_by_provider)
qed

lemma init_role_owned_stores:
  assumes "TradingAgentsGraph_init D getenv dbg cfg_arg w0 = Inr (t, w)"
  shows "role_owned_stores t"
proof -
  from assms have
    "(\<exists>n. bull_memory t = Some n \<and> bear_memory t = Some (Suc n)
        \<and> trader_memory t = Some (Suc (Suc n))
        \<and> invest_judge_memory t = Some (Suc (Suc (Suc n)))
        \<and> risk_manager_memory t = Some (Suc (Suc (Suc (Suc n)))))
     \<or> (bull_memory t = None \<and> bear_memory t = None \<and> trader_memory t = None
        \<and> invest_judge_memory t = None \<and> risk_manager_memory t = None)"
    by (auto simp: TradingAgentsGraph_init_def new_memory_def Let_def
        split: option.splits if_splits)
  then show ?thesis
    unfolding role_owned_stores_def memory_of_def
    by (auto split: role.splits)
qed

lemma reachable_role_owned_stores:
  "reachable tw \<Longrightarrow> role_owned_stores (fst tw)"
proof (induction rule: reachable.induct)
  case (constructed D getenv dbg cfg_arg w0 tw)
  then have "TradingAgentsGraph_init D getenv dbg cfg_arg w0 = Inr (fst tw, snd tw)"
    by simp
  then show ?case by (rule init_role_owned_stores)
next
  case (propagated tw D company d)
  have "memory_of (fst (snd (propagate D company d (fst tw, snd tw)))) = memory_of (fst tw)"
    by (rule memory_of_propagate)
  with propagated.IH show ?case by (simp add: role_owned_stores_def)
next
  case (reflected t w D returns_losses)
  then show ?case by simp
qed

subsection \<open>Reflection\<close>

lemma reflect_role_ok:
  "reflect_on_component D r st ret = Inr en \<Longrightarrow>
   reflect_role D r st ret (Some ref) w =
     (Inr (), w\<lparr>memories := (memories w)(ref := add_situations (memories w ref) [en])\<rparr>)"
  by (simp add: reflect_role_def)

lemma reflect_role_fail:
  "reflect_on_component D r st ret = Inl e \<Longrightarrow>
   reflect_role D r st ret mem w = (Inl e, w)"
  by (simp add: reflect_role_def)

lemma reflect_role_memories:
  "mem \<noteq> Some ref \<Longrightarrow> memories (snd (reflect_role D r st ret mem w)) ref = memories w ref"
  by (auto simp: reflect_role_def split: option.splits sum.splits)

lemma reflect_call_role:
  "reflect_call D t ret r w = reflect_role D r (curr_state t) ret (memory_of t r) w"
  by (simp add: reflect_call_def memory_of_def reflect_bull_researcher_def
      reflect_bear_researcher_def reflect_trader_def reflect_invest_judge_def
      reflect_risk_manager_def split: role.splits)

lemma reflect_and_remember_calls:
  "reflect_and_remember D t ret w
     = reflect_calls D t ret [Bull, Bear, Trader, InvestJudge, RiskManager] w"
  by (simp add: reflect_and_remember_def reflect_call_def split: prod.splits sum.splits)

subsection \<open>The concrete collaborators\<close>

lemma example_constructed:
  "TradingAgentsGraph_init example_components Map.empty dbg None empty_world
     = Inr (example_graph dbg, example_world)"
  by (simp add: TradingAgentsGraph_init_def init_llms_def example_components_def lower_char_def
      new_memory_def empty_world_def example_graph_def example_world_def Let_def
      numeral_eq_Suc)

lemma example_initial_state:
  "create_initial_state example_components company d
     = Inr (example_state company d [] [(''human'', company)])"
  "create_initial_state quiet_components company d
     = Inr (example_state company d [] [(''human'', company)])"
  "create_initial_state mute_components company d
     = Inr (example_state company d [] [(''human'', company)])"
  "create_initial_state failing_components company d
     = Inr (example_state company d [] [(''human'', company)])"
  "create_initial_state readonly_components company d
     = Inr (example_state company d [] [(''human'', company)])"
  by (simp_all add: example_components_def quiet_components_def mute_components_def
      failing_components_def readonly_components_def)

lemma example_execute:
  "execute_graph example_components dbg (example_state company d [] [(''human'', company)])
     = Inr (example_final company d)"
  by (simp add: execute_graph_def example_components_def example_state_def example_final_def)

lemma example_signal:
  "signal_processor example_components (final_trade_decision (example_final company d)) company
     = Inr HOLD"
  by (simp add: example_components_def example_final_def example_state_def)

lemma example_os:
  "os_error example_components path = None"
  "file_of example_components path = path"
  by (simp_all add: example_components_def)

lemma example_propagate:
  "propagate example_components company d (t, w) =
     (Inr (example_final company d, HOLD),
      t\<lparr>ticker := Some company, curr_state := Some (example_final company d),
        log_states_dict := (log_states_dict t)(d \<mapsto> snapshot (example_final company d))\<rparr>,
      w\<lparr>files := (files w)(log_path (Some company) \<mapsto>
                    (log_states_dict t)(d \<mapsto> snapshot (example_final company d)))\<rparr>)"
  using propagate_success [OF example_initial_state(1) example_execute example_os(1)
      example_signal, of company d t w]
  by (simp add: example_os)

lemma example_reachable: "reachable (example_graph dbg, example_world)"
  using example_constructed by (rule reachable.constructed)

lemma example_after_run_reachable: "reachable example_after_run"
  unfolding example_after_run_def using example_reachable by (rule reachable.propagated)

lemma example_after_run_eq:
  "example_after_run =
     ((example_graph False)
        \<lparr>ticker := Some ''AAPL'', curr_state := Some (example_final ''AAPL'' ''2024-05-01''),
         log_states_dict :=
           [''2024-05-01'' \<mapsto> snapshot (example_final ''AAPL'' ''2024-05-01'')]\<rparr>,
      example_world
        \<lparr>files :=
           [log_path (Some ''AAPL'') \<mapsto>
              [''2024-05-01'' \<mapsto> snapshot (example_final ''AAPL'' ''2024-05-01'')]]\<rparr>)"
  by (simp add: example_after_run_def example_propagate example_graph_def example_world_def)

lemma example_after_run_fields:
  "curr_state (fst example_after_run) = Some (example_final ''AAPL'' ''2024-05-01'')"
  "debug (fst example_after_run) = False"
  "bull_memory (fst example_after_run) = Some 0"
  "bear_memory (fst example_after_run) = Some 1"
  "trader_memory (fst example_after_run) = Some 2"
  "invest_judge_memory (fst example_after_run) = Some 3"
  "risk_manager_memory (fst example_after_run) = Some 4"
  "memories (snd example_after_run) = memories example_world"
  by (simp_all add: example_after_run_eq example_graph_def)

lemma example_paths: "log_path (Some ''MSFT'') \<noteq> log_path (Some ''AAPL'')"
  by (simp add: log_path_def)

lemma selected_provider_examples:
  "selected_provider ''SiliconFlow'' = None"
  "selected_provider ''deepseek'' = Some DeepSeek"
  by (simp_all add: selected_provider_def lower_char_def ali_bailian_def)

section \<open>The claims\<close>

subsection \<open>Reflection before any run\<close>




subsection \<open>A run that reaches its terminal state\<close>

text \<open>
  Claim C2, as the code has it: when the execution of the graph in a run of
  \<open>propagate\<close> reaches a terminal state and, in the debug mode, that state has a
  non-empty \<open>messages\<close> sequence, the orchestrator stores the terminal state as its
  current state; and when the logging of the run and the Signal Extractor then complete,
  it returns the terminal state paired with the canonical signal, which is the Signal
  Extractor applied to the state's \<open>final_trade_decision\<close> and the instrument. When
  one of the two raises, \<open>propagate\<close> raises that error, the terminal state stored.
\<close>

theorem propagate_returns_state_and_signal:
  assumes "create_initial_state D company d = Inr init"
    and "terminal_state D (debug t) init = Some final_state"
    and "debug t \<longrightarrow> messages final_state \<noteq> []"
  shows "curr_state (fst (snd (propagate D company d (t, w)))) = Some final_state
         \<and> fst (propagate D company d (t, w)) =
             (case os_error D (log_path (Some company)) of
                Some e \<Rightarrow> Inl e
              | None \<Rightarrow>
                  (case signal_processor D (final_trade_decision final_state) company of
                     Inl e \<Rightarrow> Inl e
                   | Inr signal \<Rightarrow> Inr (final_state, signal)))"
proof -
  have "execute_graph D (debug t) init = Inr final_state"
  proof (cases "debug t")
    case True
    obtain chunks err where st: "graph_stream D init = (chunks, err)"
      by (cases "graph_stream D init")
    with True assms(2) have err: "err = None" and ne: "chunks \<noteq> []"
      and l: "last chunks = final_state"
      by (auto simp: terminal_state_def split: option.splits if_splits)
    from True assms(3) l have m: "messages (last chunks) \<noteq> []" by simp
    from ne m have "last (filter (\<lambda>chunk. messages chunk \<noteq> []) chunks) = last chunks"
      by (simp add: last_filter_kept)
    moreover from ne m have "\<not> (\<forall>chunk\<in>set chunks. messages chunk = [])"
      using last_in_set by blast
    ultimately show ?thesis using st err l True
      by (simp add: execute_graph_debug)
  next
    case False
    with assms(2) show ?thesis
      by (simp add: terminal_state_def execute_graph_def split: sum.splits)
  qed
  with assms(1) show ?thesis
    by (simp add: propagate_stores_state propagate_result)
qed

theorem propagate_returns_state_and_signal_witness:
  "create_initial_state example_components ''AAPL'' ''2024-05-01''
     = Inr (example_state ''AAPL'' ''2024-05-01'' [] [(''human'', ''AAPL'')])
   \<and> terminal_state example_components (debug (example_graph True))
        (example_state ''AAPL'' ''2024-05-01'' [] [(''human'', ''AAPL'')])
       = Some (example_final ''AAPL'' ''2024-05-01'')
   \<and> messages (example_final ''AAPL'' ''2024-05-01'') \<noteq> []
   \<and> curr_state (fst (snd (propagate example_components ''AAPL'' ''2024-05-01''
                             (example_graph True, example_world))))
       = Some (example_final ''AAPL'' ''2024-05-01'')
   \<and> fst (propagate example_components ''AAPL'' ''2024-05-01''
             (example_graph True, example_world))
       = Inr (example_final ''AAPL'' ''2024-05-01'', HOLD)"
proof -
  have 1: "terminal_state example_components (debug (example_graph True))
             (example_state ''AAPL'' ''2024-05-01'' [] [(''human'', ''AAPL'')])
           = Some (example_final ''AAPL'' ''2024-05-01'')"
    by (simp add: terminal_state_def example_graph_def example_components_def
        example_final_def example_state_def)
  have 2: "messages (example_final ''AAPL'' ''2024-05-01'') \<noteq> []"
    by (simp add: example_final_def example_state_def)
  from 2 have 3: "debug (example_graph True)
                    \<longrightarrow> messages (example_final ''AAPL'' ''2024-05-01'') \<noteq> []"
    by simp
  from propagate_returns_state_and_signal [OF example_initial_state(1) 1 3,
      where w = example_world] 1 2
  show ?thesis by (simp add: example_initial_state example_os example_signal)
qed

text \<open>
  Claim C2 as stated has neither proviso. In the debug mode, with a graph whose
  terminal state has an empty transcript, the run reaches the terminal state and the
  orchestrator stores and returns the state before it. In the batch mode, when the log
  directory cannot be created, the run reaches the terminal state and \<open>propagate\<close>
  raises instead of returning the pair.
\<close>

theorem propagate_terminal_state_counterexample:
  "create_initial_state quiet_components ''AAPL'' ''2024-05-01''
     = Inr (example_state ''AAPL'' ''2024-05-01'' [] [(''human'', ''AAPL'')])
   \<and> terminal_state quiet_components (debug (example_graph True))
        (example_state ''AAPL'' ''2024-05-01'' [] [(''human'', ''AAPL'')])
       = Some (example_state ''AAPL'' ''2024-05-01'' ''HOLD'' [])
   \<and> curr_state (fst (snd (propagate quiet_components ''AAPL'' ''2024-05-01''
                             (example_graph True, example_world))))
       = Some (example_state ''AAPL'' ''2024-05-01'' [] [(''human'', ''AAPL'')])
   \<and> example_state ''AAPL'' ''2024-05-01'' [] [(''human'', ''AAPL'')]
       \<noteq> example_state ''AAPL'' ''2024-05-01'' ''HOLD'' []
   \<and> create_initial_state readonly_components ''AAPL'' ''2024-05-01''
       = Inr (example_state ''AAPL'' ''2024-05-01'' [] [(''human'', ''AAPL'')])
   \<and> terminal_state readonly_components (debug (example_graph False))
        (example_state ''AAPL'' ''2024-05-01'' [] [(''human'', ''AAPL'')])
       = Some (example_final ''AAPL'' ''2024-05-01'')
   \<and> fst (propagate readonly_components ''AAPL'' ''2024-05-01''
             (example_graph False, example_world))
       = Inl OSError"
  by (simp add: quiet_components_def readonly_components_def example_components_def
      example_state_def example_final_def example_graph_def terminal_state_def
      propagate_def execute_graph_def log_state_def process_signal_def Let_def)

subsection \<open>Streaming and batch execution\<close>

text \<open>
  Claim C3, as the code has it: for identical inputs and identical stage behaviour
  (\<open>invoke\<close> returns the last state that the stream yields, or raises what the stream
  raises), \<open>propagate\<close> returns the same result with \<open>debug=True\<close> and with
  \<open>debug=False\<close>, provided the last streamed state has a non-empty \<open>messages\<close>
  sequence.
\<close>

theorem propagate_modes_agree:
  assumes "create_initial_state D company d = Inr init"
    and "stream_agrees_with_invoke D init"
    and "\<forall>chunks. graph_stream D init = (chunks, None) \<longrightarrow> messages (last chunks) \<noteq> []"
  shows "fst (propagate D company d (t\<lparr>debug := True\<rparr>, w))
         = fst (propagate D company d (t\<lparr>debug := False\<rparr>, w))"
proof -
  obtain chunks err where st: "graph_stream D init = (chunks, err)"
    by (cases "graph_stream D init")
  have "execute_graph D True init = execute_graph D False init"
  proof (cases err)
    case None
    with st assms(2) have ne: "chunks \<noteq> []" and inv: "graph_invoke D init = Inr (last chunks)"
      by (simp_all add: stream_agrees_with_invoke_def)
    from st None assms(3) have m: "messages (last chunks) \<noteq> []" by simp
    from ne m have "last (filter (\<lambda>chunk. messages chunk \<noteq> []) chunks) = last chunks"
      by (simp add: last_filter_kept)
    moreover from ne m have "\<not> (\<forall>chunk\<in>set chunks. messages chunk = [])"
      using last_in_set by blast
    ultimately show ?thesis using st None inv
      by (simp add: execute_graph_debug) (simp add: execute_graph_def)
  next
    case (Some e)
    with st assms(2) show ?thesis
      by (simp add: stream_agrees_with_invoke_def execute_graph_def)
  qed
  then show ?thesis using assms(1)
    by (cases "execute_graph D False init")
       (simp_all add: propagate_graph_failure propagate_result)
qed

theorem propagate_modes_agree_witness:
  "create_initial_state example_components ''AAPL'' ''2024-05-01''
     = Inr (example_state ''AAPL'' ''2024-05-01'' [] [(''human'', ''AAPL'')])
   \<and> stream_agrees_with_invoke example_components
        (example_state ''AAPL'' ''2024-05-01'' [] [(''human'', ''AAPL'')])
   \<and> fst (propagate example_components ''AAPL'' ''2024-05-01''
             ((example_graph False)\<lparr>debug := True\<rparr>, example_world))
       = fst (propagate example_components ''AAPL'' ''2024-05-01''
                ((example_graph False)\<lparr>debug := False\<rparr>, example_world))
   \<and> fst (propagate example_components ''AAPL'' ''2024-05-01''
             ((example_graph False)\<lparr>debug := True\<rparr>, example_world))
       = Inr (example_final ''AAPL'' ''2024-05-01'', HOLD)"
proof -
  have 1: "stream_agrees_with_invoke example_components
             (example_state ''AAPL'' ''2024-05-01'' [] [(''human'', ''AAPL'')])"
    by (simp add: stream_agrees_with_invoke_def example_components_def)
  have 2: "\<forall>chunks. graph_stream example_components
                      (example_state ''AAPL'' ''2024-05-01'' [] [(''human'', ''AAPL'')])
                    = (chunks, None) \<longrightarrow> messages (last chunks) \<noteq> []"
    by (auto simp: example_components_def)
  from propagate_modes_agree [OF example_initial_state(1) 1 2, of "example_graph False" example_world]
  show ?thesis using 1 by (simp add: example_initial_state example_propagate)
qed

text \<open>
  Claim C3 as stated has no proviso: with a graph whose terminal state has an empty
  transcript, and whose \<open>invoke\<close> returns the last streamed state, the debug mode
  returns the state before it and the batch mode the terminal one.
\<close>

theorem propagate_modes_counterexample:
  "create_initial_state quiet_components ''AAPL'' ''2024-05-01''
     = Inr (example_state ''AAPL'' ''2024-05-01'' [] [(''human'', ''AAPL'')])
   \<and> stream_agrees_with_invoke quiet_components
        (example_state ''AAPL'' ''2024-05-01'' [] [(''human'', ''AAPL'')])
   \<and> fst (propagate quiet_components ''AAPL'' ''2024-05-01'' (example_graph True, example_world))
       = Inr (example_state ''AAPL'' ''2024-05-01'' [] [(''human'', ''AAPL'')], UNKNOWN)
   \<and> fst (propagate quiet_components ''AAPL'' ''2024-05-01'' (example_graph False, example_world))
       = Inr (example_state ''AAPL'' ''2024-05-01'' ''HOLD'' [], HOLD)
   \<and> fst (propagate quiet_components ''AAPL'' ''2024-05-01'' (example_graph True, example_world))
       \<noteq> fst (propagate quiet_components ''AAPL'' ''2024-05-01''
                 (example_graph False, example_world))"
  by (simp add: quiet_components_def example_components_def example_state_def example_graph_def
      stream_agrees_with_invoke_def propagate_def execute_graph_def log_state_def
      process_signal_def Let_def)

subsection \<open>A run that fails\<close>

text \<open>
  Claim C4: when the execution of the graph raises an error, \<open>propagate\<close> surfaces that
  error and the orchestrator's \<open>curr_state\<close> is what it was before the call; no partial
  terminal state is exposed: the run log and the files are what they were, too.
\<close>

theorem propagate_failed_run_keeps_curr_state:
  assumes "create_initial_state D company d = Inr init"
    and "graph_raises D (debug t) init e"
  shows "fst (propagate D company d (t, w)) = Inl e
         \<and> curr_state (fst (snd (propagate D company d (t, w)))) = curr_state t
         \<and> log_states_dict (fst (snd (propagate D company d (t, w)))) = log_states_dict t
         \<and> snd (snd (propagate D company d (t, w))) = w"
  using assms by (simp add: propagate_graph_failure graph_raises_execute)

theorem propagate_failed_run_keeps_curr_state_witness:
  "create_initial_state failing_components ''MSFT'' ''2024-05-02''
     = Inr (example_state ''MSFT'' ''2024-05-02'' [] [(''human'', ''MSFT'')])
   \<and> graph_raises failing_components (debug (fst example_after_run))
        (example_state ''MSFT'' ''2024-05-02'' [] [(''human'', ''MSFT'')])
        (External ''recursion limit'')
   \<and> fst (propagate failing_components ''MSFT'' ''2024-05-02'' example_after_run)
       = Inl (External ''recursion limit'')
   \<and> curr_state (fst (snd (propagate failing_components ''MSFT'' ''2024-05-02''
                             example_after_run)))
       = Some (example_final ''AAPL'' ''2024-05-01'')"
proof -
  have 1: "graph_raises failing_components (debug (fst example_after_run))
             (example_state ''MSFT'' ''2024-05-02'' [] [(''human'', ''MSFT'')])
             (External ''recursion limit'')"
    by (simp add: graph_raises_def failing_components_def)
  from propagate_failed_run_keeps_curr_state [OF example_initial_state(4) 1,
      of "snd example_after_run"]
  show ?thesis using 1 by (simp add: example_initial_state example_after_run_fields)
qed

subsection \<open>Isolation of the role stores\<close>

text \<open>
  Claim C5: reflection over one role mutates only that role's Memory Store. In every
  orchestrator that a program can hold, the store \<open>ref\<close> of another role is not the
  store passed to the reflector call of role \<open>r\<close> (each call gets a distinct store,
  owned by its role), and the call leaves the contents of \<open>ref\<close>, hence its size,
  unchanged.
\<close>

theorem reflection_touches_only_own_store:
  assumes "reachable (t, w0)" and "r \<noteq> other" and "memory_of t other = Some ref"
  shows "memory_of t r \<noteq> Some ref
         \<and> memories (snd (reflect_call D t returns_losses r w)) ref = memories w ref"
proof -
  from assms(1) have "role_owned_stores t"
    using reachable_role_owned_stores by fastforce
  with assms(2,3) have "memory_of t r \<noteq> Some ref"
    unfolding role_owned_stores_def by (metis option.distinct(1))
  then show ?thesis by (simp add: reflect_call_role reflect_role_memories)
qed

theorem reflection_touches_only_own_store_witness:
  "reachable example_after_run
   \<and> Bull \<noteq> Bear
   \<and> memory_of (fst example_after_run) Bear = Some 1
   \<and> memory_of (fst example_after_run) Bull \<noteq> Some 1
   \<and> fst (reflect_call example_components (fst example_after_run) 5 Bull (snd example_after_run))
       = Inr ()
   \<and> situations (memories (snd (reflect_call example_components (fst example_after_run) 5 Bull
                                  (snd example_after_run))) 0) = [(''AAPL'', ''HOLD'')]
   \<and> memories (snd (reflect_call example_components (fst example_after_run) 5 Bull
                      (snd example_after_run))) 1
       = memories (snd example_after_run) 1"
  using reflection_touches_only_own_store
    [where t = "fst example_after_run" and ?w0.0 = "snd example_after_run" and r = Bull
       and other = Bear and ref = 1 and D = example_components and returns_losses = 5
       and w = "snd example_after_run"]
    example_after_run_reachable
  by (simp add: example_after_run_fields memory_of_def reflect_call_def
      reflect_bull_researcher_def reflect_role_def example_components_def example_final_def
      example_state_def example_world_def add_situations_def)


subsection \<open>A failure while reflecting one role\<close>

text \<open>
  Claim C6, as the code has it: the five roles are reflected in the order bull, bear,
  trader, investment judge, risk manager, and a failure while reflecting one role ends
  \<open>reflect_and_remember\<close> with that error. The Memory Store of every role before the
  failing one has received its entry; the stores of the failing role and of every role
  after it are left as they were.
\<close>

theorem reflect_and_remember_stops_at_first_failure:
  assumes reach: "reachable (t, w0)"
    and st: "curr_state t = Some s"
    and enabled: "\<forall>r. memory_of t r \<noteq> None"
    and fails: "reflect_on_component D failing (Some s) ret = Inl e"
    and before: "\<forall>r. position r < position failing
                   \<longrightarrow> reflect_on_component D r (Some s) ret = Inr (entry r)"
  shows "fst (reflect_and_remember D t ret w) = Inl e
         \<and> (\<forall>r ref. memory_of t r = Some ref \<longrightarrow>
               memories (snd (reflect_and_remember D t ret w)) ref =
                 (if position r < position failing
                  then add_situations (memories w ref) [entry r] else memories w ref))"
proof -
  from enabled obtain b be tr ij rm where refs:
    "bull_memory t = Some b" "bear_memory t = Some be" "trader_memory t = Some tr"
    "invest_judge_memory t = Some ij" "risk_manager_memory t = Some rm"
    using enabled [rule_format, of Bull] enabled [rule_format, of Bear]
      enabled [rule_format, of Trader] enabled [rule_format, of InvestJudge]
      enabled [rule_format, of RiskManager]
    by (auto simp: memory_of_def)
  from reach have own: "role_owned_stores t"
    using reachable_role_owned_stores by fastforce
  have dist: "distinct [b, be, tr, ij, rm]"
    using own [unfolded role_owned_stores_def, rule_format, of Bull Bear]
      own [unfolded role_owned_stores_def, rule_format, of Bull Trader]
      own [unfolded role_owned_stores_def, rule_format, of Bull InvestJudge]
      own [unfolded role_owned_stores_def, rule_format, of Bull RiskManager]
      own [unfolded role_owned_stores_def, rule_format, of Bear Trader]
      own [unfolded role_owned_stores_def, rule_format, of Bear InvestJudge]
      own [unfolded role_owned_stores_def, rule_format, of Bear RiskManager]
      own [unfolded role_owned_stores_def, rule_format, of Trader InvestJudge]
      own [unfolded role_owned_stores_def, rule_format, of Trader RiskManager]
      own [unfolded role_owned_stores_def, rule_format, of InvestJudge RiskManager]
    by (simp add: memory_of_def refs)
  from dist have neq: "be \<noteq> b" "tr \<noteq> b" "ij \<noteq> b" "rm \<noteq> b" "tr \<noteq> be" "ij \<noteq> be"
    "rm \<noteq> be" "ij \<noteq> tr" "rm \<noteq> tr" "rm \<noteq> ij"
    by auto
  note defs = reflect_and_remember_def reflect_bull_researcher_def reflect_bear_researcher_def
    reflect_trader_def reflect_invest_judge_def reflect_risk_manager_def
  show ?thesis
  proof (cases failing)
    case Bull
    with fails have "reflect_and_remember D t ret w = (Inl e, w)"
      by (simp add: defs st refs reflect_role_fail)
    with Bull show ?thesis by simp
  next
    case Bear
    with before have ok: "reflect_on_component D Bull (Some s) ret = Inr (entry Bull)" by simp
    from Bear fails have
      "reflect_and_remember D t ret w =
         (Inl e, w\<lparr>memories := (memories w)(b := add_situations (memories w b) [entry Bull])\<rparr>)"
      by (simp add: defs st refs reflect_role_fail reflect_role_ok [OF ok])
    with Bear dist neq show ?thesis
      by (auto simp: memory_of_def refs split: role.splits)
  next
    case Trader
    with before have ok: "reflect_on_component D Bull (Some s) ret = Inr (entry Bull)"
      "reflect_on_component D Bear (Some s) ret = Inr (entry Bear)" by simp_all
    from Trader fails have
      "reflect_and_remember D t ret w =
         (Inl e, w\<lparr>memories := (memories w)
            (b := add_situations (memories w b) [entry Bull],
             be := add_situations (memories w be) [entry Bear])\<rparr>)"
      using dist neq
      by (simp add: defs st refs reflect_role_fail reflect_role_ok [OF ok(1)]
          reflect_role_ok [OF ok(2)])
    with Trader dist neq show ?thesis
      by (auto simp: memory_of_def refs split: role.splits)
  next
    case InvestJudge
    with before have ok: "reflect_on_component D Bull (Some s) ret = Inr (entry Bull)"
      "reflect_on_component D Bear (Some s) ret = Inr (entry Bear)"
      "reflect_on_component D Trader (Some s) ret = Inr (entry Trader)" by simp_all
    from InvestJudge fails have
      "reflect_and_remember D t ret w =
         (Inl e, w\<lparr>memories := (memories w)
            (b := add_situations (memories w b) [entry Bull],
             be := add_situations (memories w be) [entry Bear],
             tr := add_situations (memories w tr) [entry Trader])\<rparr>)"
      using dist neq
      by (simp add: defs st refs reflect_role_fail reflect_role_ok [OF ok(1)]
          reflect_role_ok [OF ok(2)] reflect_role_ok [OF ok(3)])
    with InvestJudge dist neq show ?thesis
      by (auto simp: memory_of_def refs split: role.splits)
  next
    case RiskManager
    with before have ok: "reflect_on_component D Bull (Some s) ret = Inr (entry Bull)"
      "reflect_on_component D Bear (Some s) ret = Inr (entry Bear)"
      "reflect_on_component D Trader (Some s) ret = Inr (entry Trader)"
      "reflect_on_component D InvestJudge (Some s) ret = Inr (entry InvestJudge)" by simp_all
    from RiskManager fails have
      "reflect_and_remember D t ret w =
         (Inl e, w\<lparr>memories := (memories w)
            (b := add_situations (memories w b) [entry Bull],
             be := add_situations (memories w be) [entry Bear],
             tr := add_situations (memories w tr) [entry Trader],
             ij := add_situations (memories w ij) [entry InvestJudge])\<rparr>)"
      using dist neq
      by (simp add: defs st refs reflect_role_fail reflect_role_ok [OF ok(1)]
          reflect_role_ok [OF ok(2)] reflect_role_ok [OF ok(3)] reflect_role_ok [OF ok(4)])
    with RiskManager dist neq show ?thesis
      by (auto simp: memory_of_def refs split: role.splits)
  qed
qed

theorem reflect_and_remember_stops_at_first_failure_witness:
  "reachable example_after_run
   \<and> curr_state (fst example_after_run) = Some (example_final ''AAPL'' ''2024-05-01'')
   \<and> (\<forall>r. memory_of (fst example_after_run) r \<noteq> None)
   \<and> reflect_on_component flaky_components Trader
       (Some (example_final ''AAPL'' ''2024-05-01'')) 5
       = Inl (External ''timeout'')
   \<and> fst (reflect_and_remember flaky_components (fst example_after_run) 5
             (snd example_after_run)) = Inl (External ''timeout'')
   \<and> memories (snd (reflect_and_remember flaky_components (fst example_after_run) 5
                      (snd example_after_run))) 1
       = add_situations (memories (snd example_after_run) 1) [(''AAPL'', ''HOLD'')]
   \<and> memories (snd (reflect_and_remember flaky_components (fst example_after_run) 5
                      (snd example_after_run))) 3
       = memories (snd example_after_run) 3"
proof -
  have 1: "\<forall>r. memory_of (fst example_after_run) r \<noteq> None"
    by (simp add: memory_of_def example_after_run_fields split: role.splits)
  have 2: "reflect_on_component flaky_components Trader
       (Some (example_final ''AAPL'' ''2024-05-01'')) 5
             = Inl (External ''timeout'')"
    by (simp add: flaky_components_def)
  have 3: "\<forall>r. position r < position Trader \<longrightarrow>
             reflect_on_component flaky_components r
               (Some (example_final ''AAPL'' ''2024-05-01'')) 5
               = Inr (''AAPL'', ''HOLD'')"
    by (auto simp: flaky_components_def example_components_def example_final_def
        example_state_def)
  have 4: "reachable (fst example_after_run, snd example_after_run)"
    using example_after_run_reachable by simp
  from reflect_and_remember_stops_at_first_failure
    [OF 4 example_after_run_fields(1) 1 2,
      where entry = "\<lambda>r. (''AAPL'', ''HOLD'')" and w = "snd example_after_run", OF 3]
  have "fst (reflect_and_remember flaky_components (fst example_after_run) 5
               (snd example_after_run)) = Inl (External ''timeout'')"
    and "\<forall>r ref. memory_of (fst example_after_run) r = Some ref \<longrightarrow>
           memories (snd (reflect_and_remember flaky_components (fst example_after_run) 5
                            (snd example_after_run))) ref =
             (if position r < position Trader
              then add_situations (memories (snd example_after_run) ref) [(''AAPL'', ''HOLD'')]
              else memories (snd example_after_run) ref)"
    by simp_all
  from this(1) this(2) [rule_format, of Bear 1] this(2) [rule_format, of InvestJudge 3]
  show ?thesis using 1 2 example_after_run_reachable
    by (simp add: memory_of_def example_after_run_fields)
qed

text \<open>
  Claim C6 as stated lets every role whose own reflection does not fail receive its
  entry: when the reflection of the trader fails, the store of the investment judge,
  whose reflection would succeed, receives nothing.
\<close>

theorem reflect_isolation_counterexample:
  "reachable example_after_run
   \<and> curr_state (fst example_after_run) = Some (example_final ''AAPL'' ''2024-05-01'')
   \<and> reflect_on_component flaky_components Trader
       (Some (example_final ''AAPL'' ''2024-05-01'')) 5
       = Inl (External ''timeout'')
   \<and> reflect_on_component flaky_components InvestJudge
       (Some (example_final ''AAPL'' ''2024-05-01'')) 5
       = Inr (''AAPL'', ''HOLD'')
   \<and> invest_judge_memory (fst example_after_run) = Some 3
   \<and> situations (memories (snd example_after_run) 3) = []
   \<and> situations (memories (snd (reflect_and_remember flaky_components (fst example_after_run) 5
                                  (snd example_after_run))) 3) = []"
  using example_after_run_reachable
  by (simp add: example_after_run_eq flaky_components_def example_components_def
      example_graph_def example_final_def example_state_def example_world_def
      reflect_and_remember_def reflect_bull_researcher_def reflect_bear_researcher_def
      reflect_trader_def reflect_role_def add_situations_def)

subsection \<open>The run log\<close>

text \<open>
  Claim C7, as the code has it: the run log is one mapping from \<open>asOfDate\<close> to a
  snapshot of the terminal state (reports, both debate histories, trader plan, final
  decision), held by the orchestrator and written whole to the log file of the run's
  instrument. A successful run sets the entry at its own date, replacing an entry
  already there, and leaves every entry at another date present and unmodified; it
  writes no other file.
\<close>

theorem run_log_keeps_other_dates:
  assumes "fst (propagate D company d (t, w)) = Inr (final_state, signal)"
  shows "log_states_dict (fst (snd (propagate D company d (t, w)))) d
           = Some (snapshot final_state)
         \<and> (\<forall>d'. d' \<noteq> d \<longrightarrow>
               log_states_dict (fst (snd (propagate D company d (t, w)))) d'
                 = log_states_dict t d')
         \<and> files (snd (snd (propagate D company d (t, w))))
               (file_of D (log_path (Some company)))
             = Some (log_states_dict (fst (snd (propagate D company d (t, w)))))
         \<and> (\<forall>f. f \<noteq> file_of D (log_path (Some company)) \<longrightarrow>
               files (snd (snd (propagate D company d (t, w)))) f = files w f)"
proof (cases "create_initial_state D company d")
  case (Inl e)
  with assms show ?thesis by (simp add: propagate_init_failure)
next
  case (Inr init)
  show ?thesis
  proof (cases "execute_graph D (debug t) init")
    case (Inl e)
    with Inr assms show ?thesis by (simp add: propagate_graph_failure)
  next
    case fs: (Inr fs)
    with Inr assms show ?thesis
      by (auto simp: propagate_after_execute split: option.splits sum.splits)
  qed
qed

theorem run_log_keeps_other_dates_witness:
  "fst (propagate example_components ''AAPL'' ''2024-05-02'' example_after_run)
     = Inr (example_final ''AAPL'' ''2024-05-02'', HOLD)
   \<and> log_states_dict (fst example_after_run) ''2024-05-01''
       = Some (snapshot (example_final ''AAPL'' ''2024-05-01''))
   \<and> log_states_dict (fst (snd (propagate example_components ''AAPL'' ''2024-05-02''
                                   example_after_run))) ''2024-05-01''
       = Some (snapshot (example_final ''AAPL'' ''2024-05-01''))
   \<and> log_states_dict (fst (snd (propagate example_components ''AAPL'' ''2024-05-02''
                                   example_after_run))) ''2024-05-02''
       = Some (snapshot (example_final ''AAPL'' ''2024-05-02''))"
proof -
  have 1: "fst (propagate example_components ''AAPL'' ''2024-05-02''
                  (fst example_after_run, snd example_after_run))
             = Inr (example_final ''AAPL'' ''2024-05-02'', HOLD)"
    by (simp only: example_propagate fst_conv)
  have 2: "log_states_dict (fst example_after_run) ''2024-05-01''
             = Some (snapshot (example_final ''AAPL'' ''2024-05-01''))"
    by (simp add: example_after_run_eq)
  from run_log_keeps_other_dates [OF 1] have
    "log_states_dict (fst (snd (propagate example_components ''AAPL'' ''2024-05-02''
                                  example_after_run))) ''2024-05-02''
       = Some (snapshot (example_final ''AAPL'' ''2024-05-02''))"
    and "\<forall>d'. d' \<noteq> ''2024-05-02'' \<longrightarrow>
           log_states_dict (fst (snd (propagate example_components ''AAPL'' ''2024-05-02''
                                        example_after_run))) d'
             = log_states_dict (fst example_after_run) d'"
    by simp_all
  from this(1) this(2) [rule_format, of "''2024-05-01''"] 1 2
  show ?thesis by simp
qed

text \<open>
  Claim C7 as stated keeps every entry that an earlier run of an instrument wrote: after
  a run of AAPL, a run of MSFT at the same date, and a later run of AAPL, the log file
  of AAPL holds at the first date the snapshot of the MSFT run.
\<close>

theorem run_log_append_only_counterexample:
  "map_option log_company_of_interest
     (persisted_entry example_components
        (snd (propagate_all example_components [(''AAPL'', ''2024-05-01'')]
                (example_graph False, example_world)))
        ''AAPL'' ''2024-05-01'') = Some ''AAPL''
   \<and> map_option log_company_of_interest
     (persisted_entry example_components
        (snd (propagate_all example_components
                [(''AAPL'', ''2024-05-01''), (''MSFT'', ''2024-05-01''), (''AAPL'', ''2024-05-02'')]
                (example_graph False, example_world)))
        ''AAPL'' ''2024-05-01'') = Some ''MSFT''
   \<and> persisted_entry example_components
        (snd (propagate_all example_components
                [(''AAPL'', ''2024-05-01''), (''MSFT'', ''2024-05-01''), (''AAPL'', ''2024-05-02'')]
                (example_graph False, example_world)))
        ''AAPL'' ''2024-05-01''
       \<noteq> persisted_entry example_components
           (snd (propagate_all example_components [(''AAPL'', ''2024-05-01'')]
                   (example_graph False, example_world)))
           ''AAPL'' ''2024-05-01''"
  by (simp add: example_propagate persisted_entry_def example_os example_paths snapshot_def
      example_final_def example_state_def)

subsection \<open>Invalid configurations\<close>

text \<open>
  Claim C8: an invalid or unsupported configuration (a provider name that no branch of
  the constructor accepts, or a provider whose branch requires an API key when none of
  its environment variables is set) makes the construction of the orchestrator fail
  with the configuration error, a \<open>ValueError\<close>: the constructor returns no object, so
  no run can start under such a configuration.
\<close>

theorem invalid_configuration_fails_construction:
  assumes "invalid_configuration getenv
             (case cfg_arg of None \<Rightarrow> default_config D | Some c \<Rightarrow> c)"
  shows "\<exists>problem. TradingAgentsGraph_init D getenv dbg cfg_arg w = Inl (ValueError problem)"
proof -
  from init_llms_invalid [OF assms, of D] obtain problem where
    "init_llms D getenv (case cfg_arg of None \<Rightarrow> default_config D | Some c \<Rightarrow> c)
       = Some (ValueError problem)" ..
  then show ?thesis by (simp add: TradingAgentsGraph_init_def)
qed

theorem invalid_configuration_fails_construction_witness:
  "invalid_configuration Map.empty \<lparr>llm_provider = ''SiliconFlow'', memory_enabled = None\<rparr>
   \<and> TradingAgentsGraph_init example_components Map.empty False
        (Some \<lparr>llm_provider = ''SiliconFlow'', memory_enabled = None\<rparr>) empty_world
       = Inl (ValueError (Unsupported_provider ''SiliconFlow''))
   \<and> invalid_configuration [''DEEPSEEK_API_KEY'' \<mapsto> []]
        \<lparr>llm_provider = ''deepseek'', memory_enabled = None\<rparr>
   \<and> TradingAgentsGraph_init example_components [''DEEPSEEK_API_KEY'' \<mapsto> []] False
        (Some \<lparr>llm_provider = ''deepseek'', memory_enabled = None\<rparr>) empty_world
       = Inl (ValueError (Missing_api_key ''DEEPSEEK_API_KEY''))"
  using invalid_configuration_fails_construction
    [where getenv = Map.empty and D = example_components and dbg = False and w = empty_world
       and cfg_arg = "Some \<lparr>llm_provider = ''SiliconFlow'', memory_enabled = None\<rparr>"]
    invalid_configuration_fails_construction
    [where getenv = "[''DEEPSEEK_API_KEY'' \<mapsto> []]" and D = example_components
       and dbg = False and w = empty_world
       and cfg_arg = "Some \<lparr>llm_provider = ''deepseek'', memory_enabled = None\<rparr>"]
  by (simp add: invalid_configuration_def selected_provider_examples truthy_def key_check_def
      TradingAgentsGraph_init_def init_llms_by_provider)

subsection \<open>The trace of the debug mode\<close>

text \<open>
  Claim C9: in the streaming (debug) mode, \<open>propagate\<close> drops from the trace the chunks
  whose \<open>messages\<close> list is empty and takes the last chunk that it kept as the result,
  so it succeeds only if some streamed chunk has a non-empty \<open>messages\<close> sequence; when
  every chunk has empty \<open>messages\<close>, \<open>trace[-1]\<close> fails with \<open>IndexError\<close> on the
  empty list and no terminal state is stored or returned. The chunk taken is stored as
  the current state, and returned with its signal when the logging and the Signal
  Extractor complete.
\<close>

theorem propagate_debug_needs_a_chunk_with_messages:
  assumes "debug t"
    and "create_initial_state D company d = Inr init"
  shows "fst (propagate D company d (t, w)) =
           (case graph_stream D init of
              (chunks, Some e) \<Rightarrow> Inl e
            | (chunks, None) \<Rightarrow>
                if \<forall>chunk\<in>set chunks. messages chunk = [] then Inl IndexError
                else (case os_error D (log_path (Some company)) of
                        Some e \<Rightarrow> Inl e
                      | None \<Rightarrow>
                          (case signal_processor D
                                  (final_trade_decision
                                     (last (filter (\<lambda>chunk. messages chunk \<noteq> []) chunks)))
                                  company of
                             Inl e \<Rightarrow> Inl e
                           | Inr signal \<Rightarrow>
                               Inr (last (filter (\<lambda>chunk. messages chunk \<noteq> []) chunks),
                                    signal))))
         \<and> curr_state (fst (snd (propagate D company d (t, w)))) =
           (case graph_stream D init of
              (chunks, Some e) \<Rightarrow> curr_state t
            | (chunks, None) \<Rightarrow>
                if \<forall>chunk\<in>set chunks. messages chunk = [] then curr_state t
                else Some (last (filter (\<lambda>chunk. messages chunk \<noteq> []) chunks)))"
proof -
  obtain chunks err where st: "graph_stream D init = (chunks, err)"
    by (cases "graph_stream D init")
  show ?thesis
  proof (cases err)
    case (Some e)
    with st assms(1) have "execute_graph D (debug t) init = Inl e"
      by (simp add: execute_graph_def)
    with assms st Some show ?thesis by (simp add: propagate_graph_failure)
  next
    case None
    show ?thesis
    proof (cases "\<forall>chunk\<in>set chunks. messages chunk = []")
      case True
      with assms st None have "execute_graph D (debug t) init = Inl IndexError"
        by (simp add: execute_graph_debug)
      with assms st None True show ?thesis by (simp add: propagate_graph_failure)
    next
      case False
      with assms st None have ex: "execute_graph D (debug t) init
          = Inr (last (filter (\<lambda>chunk. messages chunk \<noteq> []) chunks))"
        by (simp add: execute_graph_debug)
      from False have c: "(\<forall>chunk\<in>set chunks. messages chunk = []) \<longleftrightarrow> False"
        by blast
      show ?thesis
        unfolding st None prod.case option.case c if_False
        using assms(2) ex by (simp add: propagate_result propagate_stores_state)
    qed
  qed
qed

theorem propagate_debug_needs_a_chunk_with_messages_witness:
  "debug (example_graph True)
   \<and> graph_stream mute_components (example_state ''AAPL'' ''2024-05-01'' [] [(''human'', ''AAPL'')])
       = ([example_state ''AAPL'' ''2024-05-01'' ''HOLD'' []], None)
   \<and> fst (propagate mute_components ''AAPL'' ''2024-05-01'' (example_graph True, example_world))
       = Inl IndexError
   \<and> graph_stream quiet_components (example_state ''AAPL'' ''2024-05-01'' [] [(''human'', ''AAPL'')])
       = ([example_state ''AAPL'' ''2024-05-01'' [] [(''human'', ''AAPL'')],
           example_state ''AAPL'' ''2024-05-01'' ''HOLD'' []], None)
   \<and> fst (propagate quiet_components ''AAPL'' ''2024-05-01'' (example_graph True, example_world))
       = Inr (example_state ''AAPL'' ''2024-05-01'' [] [(''human'', ''AAPL'')], UNKNOWN)"
proof -
  have d: "debug (example_graph True)" by (simp add: example_graph_def)
  have 1: "graph_stream mute_components
             (example_state ''AAPL'' ''2024-05-01'' [] [(''human'', ''AAPL'')])
           = ([example_state ''AAPL'' ''2024-05-01'' ''HOLD'' []], None)"
    by (simp add: mute_components_def example_components_def example_state_def)
  have 2: "graph_stream quiet_components
             (example_state ''AAPL'' ''2024-05-01'' [] [(''human'', ''AAPL'')])
           = ([example_state ''AAPL'' ''2024-05-01'' [] [(''human'', ''AAPL'')],
               example_state ''AAPL'' ''2024-05-01'' ''HOLD'' []], None)"
    by (simp add: quiet_components_def example_components_def example_state_def)
  from propagate_debug_needs_a_chunk_with_messages [OF d example_initial_state(3),
      where w = example_world]
    propagate_debug_needs_a_chunk_with_messages [OF d example_initial_state(2),
      where w = example_world]
  show ?thesis using d 1 2
    by (simp add: example_state_def quiet_components_def example_components_def)
qed

subsection \<open>The instrument of a failed run\<close>



end
